theory Spec2Isabelle
  imports Main "HOL-Library.Word"
begin

section \<open>The inspector agent of \<^verbatim>\<open>src/inspector_agent.cc\<close>\<close>

text \<open>
  The file bridges a debugging front-end and a script engine. Two classes carry its state:
  \<^verbatim>\<open>NodeInspectorClient\<close> (the session client, with the nested pause loop) and
  \<^verbatim>\<open>Agent\<close> (the facade that owns the client and the IO thread controller).
  Both are modelled as records, every method as a function from the object to a run: the
  calls it made to its collaborators, in order, and how it ended. The client lives inside
  the agent that owns it, so a method that runs while the agent is called into (the nested
  pause loop) takes the agent and works on the client it finds there. Member names lose their
  trailing underscore (\<^verbatim>\<open>channel_\<close> is \<open>channel\<close>); the agent's \<^verbatim>\<open>platform_\<close> is
  \<open>agent_platform\<close>, the client having a member of the same name.
\<close>

subsection \<open>Handles and values of the engine\<close>

text \<open>
  Pointers to objects the file never looks into (\<^verbatim>\<open>Environment*\<close>, \<^verbatim>\<open>v8::Platform*\<close>,
  \<^verbatim>\<open>InspectorSessionDelegate*\<close>, a script function) are identities.
\<close>

type_synonym environment = nat
type_synonym platform = nat
type_synonym delegate = nat
type_synonym function_ref = nat

text \<open>
  A \<^verbatim>\<open>v8::Local<v8::Value>\<close>. A string holds its UTF-16 code units, which is what
  \<^verbatim>\<open>String::Write\<close> copies out. An empty handle is \<open>None\<close> of \<open>js_value option\<close>.
\<close>

datatype js_value =
    JsUndefined
  | JsNull
  | JsString "16 word list"
  | JsNumber int
  | JsFunction function_ref
  | JsObject nat

text \<open>One frame of a \<^verbatim>\<open>v8::StackTrace\<close>: only \<^verbatim>\<open>GetScriptId()\<close> is read.\<close>

record stack_frame =
  frame_script_id :: int

text \<open>
  What \<^verbatim>\<open>NodeInspectorClient::FatalException\<close> reads of a \<^verbatim>\<open>v8::Message\<close>:
  \<^verbatim>\<open>GetScriptOrigin().ScriptID()->Value()\<close>, \<^verbatim>\<open>GetStackTrace()\<close> (an empty handle is
  \<open>None\<close>), \<^verbatim>\<open>Get()\<close>, \<^verbatim>\<open>GetScriptResourceName()\<close>, \<^verbatim>\<open>GetLineNumber\<close> and
  \<^verbatim>\<open>GetStartColumn\<close> (each a \<^verbatim>\<open>Maybe<int>\<close>).
\<close>

record message =
  msg_script_id :: int
  msg_stack_trace :: "stack_frame list option"
  msg_text :: "js_value option"
  msg_resource_name :: "js_value option"
  msg_line_number :: "int option"
  msg_start_column :: "int option"

text \<open>The arguments of \<^verbatim>\<open>V8Inspector::exceptionThrown\<close>, in the order of the call.\<close>

record exception_report =
  exn_details :: string
  exn_error :: "js_value option"
  exn_message :: "16 word list"
  exn_url :: "16 word list"
  exn_line :: int
  exn_column :: int
  exn_stack :: "stack_frame list option"
  exn_script_id :: int

subsection \<open>The environment of the execution thread\<close>

text \<open>
  While the client waits in \<^verbatim>\<open>WaitForFrontendMessageWhilePaused\<close> or runs a task in
  \<^verbatim>\<open>PumpMessageLoop\<close>, its collaborators call back on the same thread. A \<open>response\<close> is
  what one such external call does: the calls it makes before it returns, and the boolean
  it returns. The calls are those the program can receive there:
  \<^item> from the inspector engine, on the client: \<^verbatim>\<open>quitMessageLoopOnPause\<close> and a
    re-entrant \<^verbatim>\<open>runMessageLoopOnPause\<close>;
  \<^item> from the transport and the embedder, on the agent: \<^verbatim>\<open>Connect\<close>, \<^verbatim>\<open>Disconnect\<close>,
    \<^verbatim>\<open>Dispatch\<close>, \<^verbatim>\<open>RunMessageLoop\<close>, \<^verbatim>\<open>Stop\<close>, \<^verbatim>\<open>WaitForDisconnect\<close>,
    \<^verbatim>\<open>FatalException\<close>, \<^verbatim>\<open>PauseOnNextJavascriptStatement\<close> and \<^verbatim>\<open>delegate\<close>;
  \<^item> from the scheduler: \<^verbatim>\<open>StartIoTask::Run\<close>, the foreground task that
    \<^verbatim>\<open>RequestIoThreadStart\<close> queues, with what its bind returns.
  \<^verbatim>\<open>Agent::Start\<close> is the bootstrap that creates the client and is not among them, nor
  is \<^verbatim>\<open>IsConnected\<close>, which reads the controller and changes nothing. A
  re-entrant run of the loop carries the responses its own waits and pumps would get. A
  script of responses that runs out leaves the call blocked: the environment sends
  nothing more.
\<close>

datatype callback =
    OnQuit
  | OnPause "response list"
  | OnConnect delegate
  | OnDisconnect
  | OnDispatch string
  | OnRunMessageLoop "response list"
  | OnStop
  | OnWaitForDisconnect
  | OnFatalException "js_value option" message
  | OnPauseOnNextStatement string
  | OnDelegate
  | OnStartIoTask bool
and response =
    Response "callback list" bool

text \<open>
  The log: every call the code makes to a collaborator, and every call a collaborator
  makes into the program (\<open>Incoming\<close>). The two calls that block are logged when they
  start and again when they return, with the boolean returned; what the environment calls
  in between stands in between.
\<close>

datatype event =
    Incoming callback
  | WaitForFrontendMessageWhilePaused delegate
  | WaitReturned bool
  | PumpMessageLoop platform environment
  | PumpReturned bool
  | SessionConnect delegate
  | SessionDestroyed delegate
  | SessionDispatch delegate string
  | SessionSchedulePause delegate string string
  | InspectorContextCreated environment int string
  | InspectorContextDestroyed environment
  | ExceptionThrown exception_report
  | IsolateSetData environment
  | GlobalSet environment string
  | UvAsyncInit int
  | IoStart string bool
  | IoStop
  | IoWaitForDisconnect
  | FunctionCall function_ref "js_value list"

text \<open>
  How a call ends: it returns; an \<^verbatim>\<open>assert\<close> fails (the asserted expression is kept); a
  null \<^verbatim>\<open>unique_ptr\<close> is dereferenced; a method goes on after its object was destroyed;
  or the call is still blocked in the environment. The middle three end the program or
  leave what it does undefined: the model stops there.
\<close>

datatype 'a outcome =
    Returned 'a
  | AssertFailed string
  | NullDeref
  | UseAfterFree
  | Blocked

type_synonym 'a run = "event list \<times> 'a outcome"

definition emit :: "event list \<Rightarrow> 'a run \<Rightarrow> 'a run" where
  "emit es m = (es @ fst m, snd m)"

definition then_run :: "'a run \<Rightarrow> ('a \<Rightarrow> 'b run) \<Rightarrow> 'b run" where
  "then_run m f =
     (case snd m of
        Returned x \<Rightarrow> emit (fst m) (f x)
      | AssertFailed s \<Rightarrow> (fst m, AssertFailed s)
      | NullDeref \<Rightarrow> (fst m, NullDeref)
      | UseAfterFree \<Rightarrow> (fst m, UseAfterFree)
      | Blocked \<Rightarrow> (fst m, Blocked))"

subsection \<open>\<^verbatim>\<open>ChannelImpl\<close> and \<^verbatim>\<open>NodeInspectorClient\<close>\<close>

definition CONTEXT_GROUP_ID :: int where
  "CONTEXT_GROUP_ID = 1"

record ChannelImpl =
  delegate :: delegate

record NodeInspectorClient =
  env :: environment
  platform :: platform
  terminated :: bool
  running_nested_loop :: bool
  channel :: "ChannelImpl option"

definition new_NodeInspectorClient :: "environment \<Rightarrow> platform \<Rightarrow> NodeInspectorClient" where
  "new_NodeInspectorClient e p =
     \<lparr>env = e, platform = p, terminated = False,
      running_nested_loop = False, channel = None\<rparr>"

definition quitMessageLoopOnPause :: "NodeInspectorClient \<Rightarrow> NodeInspectorClient" where
  "quitMessageLoopOnPause c = c\<lparr>terminated := True\<rparr>"

text \<open>\<^verbatim>\<open>channel_.reset()\<close>: the channel, if any, is destroyed with its session.\<close>

definition channel_reset :: "NodeInspectorClient \<Rightarrow> NodeInspectorClient run" where
  "channel_reset c =
     (case channel c of
        None \<Rightarrow> ([], Returned c)
      | Some ch \<Rightarrow> ([SessionDestroyed (delegate ch)], Returned (c\<lparr>channel := None\<rparr>)))"

definition connectFrontend :: "delegate \<Rightarrow> NodeInspectorClient \<Rightarrow> NodeInspectorClient run" where
  "connectFrontend d c =
     (if channel c \<noteq> None then ([], AssertFailed ''channel_ == nullptr'')
      else ([SessionConnect d], Returned (c\<lparr>channel := Some \<lparr>delegate = d\<rparr>\<rparr>)))"

definition disconnectFrontend :: "NodeInspectorClient \<Rightarrow> NodeInspectorClient run" where
  "disconnectFrontend c = channel_reset (quitMessageLoopOnPause c)"

definition dispatchMessageFromFrontend ::
  "string \<Rightarrow> NodeInspectorClient \<Rightarrow> NodeInspectorClient run" where
  "dispatchMessageFromFrontend msg c =
     (case channel c of
        None \<Rightarrow> ([], AssertFailed ''channel_ != nullptr'')
      | Some ch \<Rightarrow> ([SessionDispatch (delegate ch) msg], Returned c))"

text \<open>
  \<^verbatim>\<open>contextCreated\<close> and \<^verbatim>\<open>contextDestroyed\<close> forward to the inspector engine; the
  context is the environment's. \<^verbatim>\<open>Utf8ToStringView\<close> is declared outside this file: the
  model keeps the UTF-8 text it is given.
\<close>

definition contextCreated :: "environment \<Rightarrow> string \<Rightarrow> NodeInspectorClient \<Rightarrow> NodeInspectorClient run" where
  "contextCreated context name c = ([InspectorContextCreated context CONTEXT_GROUP_ID name], Returned c)"

definition contextDestroyed :: "environment \<Rightarrow> NodeInspectorClient \<Rightarrow> NodeInspectorClient run" where
  "contextDestroyed context c = ([InspectorContextDestroyed context], Returned c)"

definition schedulePauseOnNextStatement :: "string \<Rightarrow> ChannelImpl \<Rightarrow> event list" where
  "schedulePauseOnNextStatement reason ch = [SessionSchedulePause (delegate ch) reason reason]"

definition ToProtocolString :: "js_value option \<Rightarrow> 16 word list" where
  "ToProtocolString v =
     (case v of
        None \<Rightarrow> []
      | Some JsNull \<Rightarrow> []
      | Some JsUndefined \<Rightarrow> []
      | Some (JsString s) \<Rightarrow> take (length s) s
      | Some _ \<Rightarrow> [])"

text \<open>
  \<^verbatim>\<open>NodeInspectorClient::FatalException\<close>. \<open>reported_script_id\<close> is the local
  \<^verbatim>\<open>script_id\<close> after the \<^verbatim>\<open>if\<close>: the three conjuncts are tested in the source's order,
  so \<^verbatim>\<open>GetFrame(0)\<close> is read only when there is a frame.
\<close>

definition reported_script_id :: "message \<Rightarrow> int" where
  "reported_script_id m =
     (let script_id = msg_script_id m; stack_trace = msg_stack_trace m in
      if (case stack_trace of
            None \<Rightarrow> False
          | Some frames \<Rightarrow> length frames > 0 \<and> script_id = frame_script_id (frames ! 0))
      then 0 else script_id)"

definition NodeInspectorClient_FatalException ::
  "js_value option \<Rightarrow> message \<Rightarrow> NodeInspectorClient \<Rightarrow> NodeInspectorClient run" where
  "NodeInspectorClient_FatalException error m c =
     ([ExceptionThrown
         \<lparr>exn_details = ''Uncaught'',
          exn_error = error,
          exn_message = ToProtocolString (msg_text m),
          exn_url = ToProtocolString (msg_resource_name m),
          exn_line = (case msg_line_number m of None \<Rightarrow> 0 | Some n \<Rightarrow> n),
          exn_column = (case msg_start_column m of None \<Rightarrow> 0 | Some n \<Rightarrow> n),
          exn_stack = msg_stack_trace m,
          exn_script_id = reported_script_id m\<rparr>],
      Returned c)"

subsection \<open>\<^verbatim>\<open>Agent\<close>\<close>

text \<open>
  The IO thread controller is built from \<^verbatim>\<open>(parent_env_, platform_, path_, true)\<close>; its
  transport is outside this file. What \<^verbatim>\<open>InspectorIo::Start\<close> returns is an input of the
  model (\<open>bind_ok\<close>).
\<close>

record InspectorIo =
  io_env :: "environment option"
  io_platform :: "platform option"
  io_path :: string
  io_wait_for_connect :: bool

record Agent =
  parent_env :: "environment option"
  client :: "NodeInspectorClient option"
  agent_platform :: "platform option"
  enabled :: bool
  io :: "InspectorIo option"
  path :: string

definition new_Agent :: Agent where
  "new_Agent =
     \<lparr>parent_env = None, client = None, agent_platform = None, enabled = False,
      io = None, path = []\<rparr>"

text \<open>
  Modelled from the spec: \<^verbatim>\<open>Agent::IsStarted\<close> is declared in \<^verbatim>\<open>inspector_agent.h\<close>, which
  is not among the sources. The spec ties being started to the Session Client existing
  (connect, disconnect and dispatch assert that it exists and are fatal before start; a
  failed bind releases it).
\<close>

definition IsStarted :: "Agent \<Rightarrow> bool" where
  "IsStarted a = (client a \<noteq> None)"

text \<open>
  \<^verbatim>\<open>client_.reset()\<close>, and the assignment of a new client: the old client, if any, is
  destroyed, and its channel with it.
\<close>

definition client_reset :: "Agent \<Rightarrow> Agent run" where
  "client_reset a =
     (case client a of
        None \<Rightarrow> ([], Returned a)
      | Some c \<Rightarrow> then_run (channel_reset c) (\<lambda>c'. ([], Returned (a\<lparr>client := None\<rparr>))))"

definition Agent_StartIoThread :: "bool \<Rightarrow> bool \<Rightarrow> Agent \<Rightarrow> (bool \<times> Agent) run" where
  "Agent_StartIoThread wait_for_connect bind_ok a =
     (if io a \<noteq> None then ([], Returned (True, a))
      else if client a = None then ([], AssertFailed ''client_ != nullptr'')
      else
        (let a1 = a\<lparr>enabled := True\<rparr>;
             a2 = a1\<lparr>io := Some \<lparr>io_env = parent_env a1, io_platform = agent_platform a1,
                                  io_path = path a1, io_wait_for_connect = True\<rparr>\<rparr>
         in if \<not> bind_ok
            then emit [IoStart (path a2) False]
                   (then_run (client_reset a2) (\<lambda>a3. ([], Returned (False, a3))))
            else ([IoStart (path a2) True], Returned (True, a2))))"

definition Agent_Start ::
  "environment \<Rightarrow> platform \<Rightarrow> string option \<Rightarrow> int \<Rightarrow> bool \<Rightarrow> Agent \<Rightarrow> (bool \<times> Agent) run" where
  "Agent_Start e p path_arg uv_async_init bind_ok a =
     (let a1 = a\<lparr>path := (case path_arg of None \<Rightarrow> [] | Some s \<Rightarrow> s)\<rparr>;
          a2 = a1\<lparr>parent_env := Some e\<rparr>
      in emit [IsolateSetData e, GlobalSet e ''callAndPauseOnStart'']
           (then_run (client_reset a2) (\<lambda>a3.
              (let a4 = a3\<lparr>client := Some (new_NodeInspectorClient e p)\<rparr> in
               then_run (contextCreated e ''CB debugger context'' (new_NodeInspectorClient e p)) (\<lambda>c.
                 (let a5 = a4\<lparr>client := Some c\<rparr>;
                      a6 = a5\<lparr>agent_platform := Some p\<rparr>
                  in emit [UvAsyncInit uv_async_init]
                       (if 0 \<noteq> uv_async_init then ([], AssertFailed ''0 == uv_async_init(...)'')
                        else Agent_StartIoThread True bind_ok a6)))))))"

definition Agent_Stop :: "Agent \<Rightarrow> Agent run" where
  "Agent_Stop a =
     (if io a \<noteq> None then ([IoStop], Returned (a\<lparr>io := None\<rparr>)) else ([], Returned a))"

definition Agent_Connect :: "delegate \<Rightarrow> Agent \<Rightarrow> Agent run" where
  "Agent_Connect d a =
     (let a1 = a\<lparr>enabled := True\<rparr> in
      case client a1 of
        None \<Rightarrow> ([], NullDeref)
      | Some c \<Rightarrow> then_run (connectFrontend d c) (\<lambda>c'. ([], Returned (a1\<lparr>client := Some c'\<rparr>))))"

definition Agent_IsConnected :: "bool \<Rightarrow> Agent \<Rightarrow> bool" where
  "Agent_IsConnected io_connected a = (io a \<noteq> None \<and> io_connected)"

definition Agent_WaitForDisconnect :: "Agent \<Rightarrow> Agent run" where
  "Agent_WaitForDisconnect a =
     (case client a of
        None \<Rightarrow> ([], AssertFailed ''client_ != nullptr'')
      | Some c \<Rightarrow>
          (case parent_env a of
             None \<Rightarrow> ([], NullDeref)
           | Some e \<Rightarrow>
               then_run (contextDestroyed e c) (\<lambda>c'.
                 (let a1 = a\<lparr>client := Some c'\<rparr> in
                  if io a1 \<noteq> None then ([IoWaitForDisconnect], Returned a1)
                  else ([], Returned a1)))))"

definition Agent_FatalException :: "js_value option \<Rightarrow> message \<Rightarrow> Agent \<Rightarrow> Agent run" where
  "Agent_FatalException error m a =
     (if \<not> IsStarted a then ([], Returned a)
      else
        (case client a of
           None \<Rightarrow> ([], NullDeref)
         | Some c \<Rightarrow>
             then_run (NodeInspectorClient_FatalException error m c) (\<lambda>c'.
               Agent_WaitForDisconnect (a\<lparr>client := Some c'\<rparr>))))"

definition Agent_Dispatch :: "string \<Rightarrow> Agent \<Rightarrow> Agent run" where
  "Agent_Dispatch msg a =
     (case client a of
        None \<Rightarrow> ([], AssertFailed ''client_ != nullptr'')
      | Some c \<Rightarrow>
          then_run (dispatchMessageFromFrontend msg c) (\<lambda>c'. ([], Returned (a\<lparr>client := Some c'\<rparr>))))"

definition Agent_Disconnect :: "Agent \<Rightarrow> Agent run" where
  "Agent_Disconnect a =
     (case client a of
        None \<Rightarrow> ([], AssertFailed ''client_ != nullptr'')
      | Some c \<Rightarrow>
          then_run (disconnectFrontend c) (\<lambda>c'. ([], Returned (a\<lparr>client := Some c'\<rparr>))))"

definition Agent_delegate :: "Agent \<Rightarrow> delegate option run" where
  "Agent_delegate a =
     (case client a of
        None \<Rightarrow> ([], AssertFailed ''client_ != nullptr'')
      | Some c \<Rightarrow>
          (case channel c of
             None \<Rightarrow> ([], Returned None)
           | Some ch \<Rightarrow> ([], Returned (Some (delegate ch)))))"

definition Agent_PauseOnNextJavascriptStatement :: "string \<Rightarrow> Agent \<Rightarrow> Agent run" where
  "Agent_PauseOnNextJavascriptStatement reason a =
     (case client a of
        None \<Rightarrow> ([], NullDeref)
      | Some c \<Rightarrow>
          (case channel c of
             None \<Rightarrow> ([], Returned a)
           | Some ch \<Rightarrow> (schedulePauseOnNextStatement reason ch, Returned a)))"

subsection \<open>\<^verbatim>\<open>CallAndPauseOnStart\<close>\<close>

text \<open>
  The \<^verbatim>\<open>for (int i = 1; i < args.Length(); i++) call_args.push_back(args[i])\<close> loop, from
  index \<open>i\<close> with the vector built so far.
\<close>

function collect_call_args :: "js_value list \<Rightarrow> nat \<Rightarrow> js_value list \<Rightarrow> js_value list" where
  "collect_call_args args i call_args =
     (if i < length args then collect_call_args args (i + 1) (call_args @ [args ! i])
      else call_args)"
  by pat_completeness auto
termination
  by (relation "measure (\<lambda>(args, i, call_args). length args - i)") auto

declare collect_call_args.simps [simp del]

text \<open>
  The callback behind the global \<^verbatim>\<open>callAndPauseOnStart\<close>. What the script function returns
  is an input: \<open>call f xs\<close> is the \<^verbatim>\<open>MaybeLocal\<close> that \<^verbatim>\<open>Function::Call\<close> gives, \<open>None\<close>
  when it is empty. The result holds the return value slot, \<open>None\<close> while it was never set.
  The agent is the one stored in the isolate's data slot 0. What the script does to the
  agent while it runs (a pause taken inside the call) lies outside this function.
\<close>

definition CallAndPauseOnStart ::
  "(function_ref \<Rightarrow> js_value list \<Rightarrow> js_value option) \<Rightarrow> js_value list \<Rightarrow> Agent
     \<Rightarrow> (js_value option \<times> Agent) run" where
  "CallAndPauseOnStart call args a =
     (if \<not> length args \<ge> 1 then ([], AssertFailed ''args.Length() >= 1'')
      else
        (case args ! 0 of
           JsFunction f \<Rightarrow>
             (let call_args = collect_call_args args 1 [] in
              then_run (Agent_PauseOnNextJavascriptStatement ''Break on start'' a) (\<lambda>a'.
                (let retval = call f call_args in
                 ([FunctionCall f call_args],
                  Returned ((case retval of None \<Rightarrow> None | Some v \<Rightarrow> Some v), a')))))
         | _ \<Rightarrow> ([], AssertFailed ''args[0]->IsFunction()'')))"

subsection \<open>The nested pause loop\<close>

text \<open>
  \<^verbatim>\<open>StartIoTask::Run\<close> calls \<^verbatim>\<open>agent->StartIoThread(false)\<close> and drops the result;
  \<^verbatim>\<open>StartIoThreadAsyncCallback\<close> and \<^verbatim>\<open>StartIoInterrupt\<close> have the same body.
\<close>

definition StartIoTask_Run :: "bool \<Rightarrow> Agent \<Rightarrow> Agent run" where
  "StartIoTask_Run bind_ok a =
     then_run (Agent_StartIoThread False bind_ok a) (\<lambda>(started, a'). ([], Returned a'))"

text \<open>
  \<^verbatim>\<open>runMessageLoopOnPause\<close> with its two loops, on the client of the agent.
  \<open>pause_loop\<close> is the outer \<^verbatim>\<open>while (!terminated_ && channel_->waitForFrontendMessage())\<close>,
  \<open>pump_loop\<close> the inner
  \<^verbatim>\<open>while (v8::platform::PumpMessageLoop(platform_, env_->isolate()))\<close>. Each external call
  takes the next response of the script; \<open>run_callback\<close> is the environment making one of
  its calls while that call is in progress. \<^verbatim>\<open>dispatchProtocolMessage\<close> hands the message
  to the session; whatever the session calls back while it handles the message is a
  further callback of the same response.

  A task may release the client while the loop is on the stack (\<^verbatim>\<open>StartIoThread\<close> whose
  bind fails). The loop's next read or write of a member is then a use of a destroyed
  object, and so is a call of the engine on the client; the engine is destroyed with it.

  \<^verbatim>\<open>Agent::RunMessageLoop\<close> asserts the client and enters the loop.
\<close>

fun run_callback :: "callback \<Rightarrow> Agent \<Rightarrow> Agent run"
and run_callbacks :: "callback list \<Rightarrow> Agent \<Rightarrow> Agent run"
and Agent_RunMessageLoop :: "response list \<Rightarrow> Agent \<Rightarrow> Agent run"
and runMessageLoopOnPause :: "Agent \<Rightarrow> response list \<Rightarrow> Agent run"
and pause_loop :: "Agent \<Rightarrow> response list \<Rightarrow> Agent run"
and pump_loop :: "Agent \<Rightarrow> response list \<Rightarrow> Agent run"
where
  "run_callback OnQuit a =
     emit [Incoming OnQuit]
       (case client a of
          None \<Rightarrow> ([], UseAfterFree)
        | Some c \<Rightarrow> ([], Returned (a\<lparr>client := Some (quitMessageLoopOnPause c)\<rparr>)))"
| "run_callback (OnPause rs) a = emit [Incoming (OnPause rs)] (runMessageLoopOnPause a rs)"
| "run_callback (OnConnect d) a = emit [Incoming (OnConnect d)] (Agent_Connect d a)"
| "run_callback OnDisconnect a = emit [Incoming OnDisconnect] (Agent_Disconnect a)"
| "run_callback (OnDispatch msg) a = emit [Incoming (OnDispatch msg)] (Agent_Dispatch msg a)"
| "run_callback (OnRunMessageLoop rs) a =
     emit [Incoming (OnRunMessageLoop rs)] (Agent_RunMessageLoop rs a)"
| "run_callback OnStop a = emit [Incoming OnStop] (Agent_Stop a)"
| "run_callback OnWaitForDisconnect a =
     emit [Incoming OnWaitForDisconnect] (Agent_WaitForDisconnect a)"
| "run_callback (OnFatalException error m) a =
     emit [Incoming (OnFatalException error m)] (Agent_FatalException error m a)"
| "run_callback (OnPauseOnNextStatement reason) a =
     emit [Incoming (OnPauseOnNextStatement reason)]
       (Agent_PauseOnNextJavascriptStatement reason a)"
| "run_callback OnDelegate a =
     emit [Incoming OnDelegate] (then_run (Agent_delegate a) (\<lambda>d. ([], Returned a)))"
| "run_callback (OnStartIoTask bind_ok) a =
     emit [Incoming (OnStartIoTask bind_ok)] (StartIoTask_Run bind_ok a)"
| "run_callbacks [] a = ([], Returned a)"
| "run_callbacks (cb # cbs) a =
     (case run_callback cb a of
        (l, Returned a') \<Rightarrow> emit l (run_callbacks cbs a')
      | (l, AssertFailed s) \<Rightarrow> (l, AssertFailed s)
      | (l, NullDeref) \<Rightarrow> (l, NullDeref)
      | (l, UseAfterFree) \<Rightarrow> (l, UseAfterFree)
      | (l, Blocked) \<Rightarrow> (l, Blocked))"
| "Agent_RunMessageLoop rs a =
     (case client a of
        None \<Rightarrow> ([], AssertFailed ''client_ != nullptr'')
      | Some c \<Rightarrow> runMessageLoopOnPause a rs)"
| "runMessageLoopOnPause a rs =
     (case client a of
        None \<Rightarrow> ([], UseAfterFree)
      | Some c \<Rightarrow>
          if channel c = None then ([], AssertFailed ''channel_ != nullptr'')
          else if running_nested_loop c then ([], Returned a)
          else
            (case pause_loop
                    (a\<lparr>client := Some (c\<lparr>terminated := False, running_nested_loop := True\<rparr>)\<rparr>)
                    rs of
               (l, Returned a') \<Rightarrow>
                 (case client a' of
                    None \<Rightarrow> (l, UseAfterFree)
                  | Some c' \<Rightarrow>
                      (l, Returned
                            (a'\<lparr>client :=
                                  Some (c'\<lparr>terminated := False,
                                            running_nested_loop := False\<rparr>)\<rparr>)))
             | (l, AssertFailed s) \<Rightarrow> (l, AssertFailed s)
             | (l, NullDeref) \<Rightarrow> (l, NullDeref)
             | (l, UseAfterFree) \<Rightarrow> (l, UseAfterFree)
             | (l, Blocked) \<Rightarrow> (l, Blocked)))"
| "pause_loop a [] =
     (case client a of
        None \<Rightarrow> ([], UseAfterFree)
      | Some c \<Rightarrow>
          if terminated c then ([], Returned a)
          else (case channel c of
                  None \<Rightarrow> ([], NullDeref)
                | Some ch \<Rightarrow> ([WaitForFrontendMessageWhilePaused (delegate ch)], Blocked)))"
| "pause_loop a (Response cbs b # rs) =
     (case client a of
        None \<Rightarrow> ([], UseAfterFree)
      | Some c \<Rightarrow>
          if terminated c then ([], Returned a)
          else (case channel c of
                  None \<Rightarrow> ([], NullDeref)
                | Some ch \<Rightarrow>
                    emit [WaitForFrontendMessageWhilePaused (delegate ch)]
                      (case run_callbacks cbs a of
                         (l, Returned a') \<Rightarrow>
                           emit (l @ [WaitReturned b])
                             (if b then pump_loop a' rs else ([], Returned a'))
                       | (l, AssertFailed s) \<Rightarrow> (l, AssertFailed s)
                       | (l, NullDeref) \<Rightarrow> (l, NullDeref)
                       | (l, UseAfterFree) \<Rightarrow> (l, UseAfterFree)
                       | (l, Blocked) \<Rightarrow> (l, Blocked))))"
| "pump_loop a [] =
     (case client a of
        None \<Rightarrow> ([], UseAfterFree)
      | Some c \<Rightarrow> ([PumpMessageLoop (platform c) (env c)], Blocked))"
| "pump_loop a (Response cbs b # rs) =
     (case client a of
        None \<Rightarrow> ([], UseAfterFree)
      | Some c \<Rightarrow>
          emit [PumpMessageLoop (platform c) (env c)]
            (case run_callbacks cbs a of
               (l, Returned a') \<Rightarrow>
                 emit (l @ [PumpReturned b])
                   (if b then pump_loop a' rs else pause_loop a' rs)
             | (l, AssertFailed s) \<Rightarrow> (l, AssertFailed s)
             | (l, NullDeref) \<Rightarrow> (l, NullDeref)
             | (l, UseAfterFree) \<Rightarrow> (l, UseAfterFree)
             | (l, Blocked) \<Rightarrow> (l, Blocked)))"

subsection \<open>The protocol of the nested pause loop\<close>






















subsection \<open>Sequences of calls\<close>

text \<open>
  A front-end attaching and detaching: a sequence of \<^verbatim>\<open>connectFrontend\<close> and
  \<^verbatim>\<open>disconnectFrontend\<close> calls on the client, stopped by the first failed assertion.
  \<open>no_overlap\<close> holds of a sequence when no connect comes while a channel is attached.
\<close>

datatype frontend_call = Connect delegate | Disconnect

fun apply_call :: "frontend_call \<Rightarrow> NodeInspectorClient \<Rightarrow> NodeInspectorClient run" where
  "apply_call (Connect d) c = connectFrontend d c"
| "apply_call Disconnect c = disconnectFrontend c"

fun frontend_calls :: "frontend_call list \<Rightarrow> NodeInspectorClient \<Rightarrow> NodeInspectorClient run" where
  "frontend_calls [] c = ([], Returned c)"
| "frontend_calls (x # xs) c = then_run (apply_call x c) (\<lambda>c'. frontend_calls xs c')"

fun no_overlap :: "bool \<Rightarrow> frontend_call list \<Rightarrow> bool" where
  "no_overlap connected [] = True"
| "no_overlap connected (Connect d # xs) = (\<not> connected \<and> no_overlap True xs)"
| "no_overlap connected (Disconnect # xs) = no_overlap False xs"

fun is_connect :: "frontend_call \<Rightarrow> bool" where
  "is_connect (Connect d) = True"
| "is_connect Disconnect = False"

text \<open>The transport binds of a log: the calls of \<^verbatim>\<open>InspectorIo::Start\<close>.\<close>

fun is_bind :: "event \<Rightarrow> bool" where
  "is_bind (IoStart p b) = True"
| "is_bind e = False"

definition binds :: "event list \<Rightarrow> nat" where
  "binds l = length (filter is_bind l)"

definition disconnect_waits :: "event list \<Rightarrow> nat" where
  "disconnect_waits l = length (filter (\<lambda>e. e = IoWaitForDisconnect) l)"

subsection \<open>Sample states\<close>

definition idle_client :: NodeInspectorClient where
  "idle_client = new_NodeInspectorClient 1 2"

definition connected_client :: NodeInspectorClient where
  "connected_client = idle_client\<lparr>channel := Some \<lparr>delegate = 7\<rparr>\<rparr>"

text \<open>The client inside a pause whose front-end has just disconnected.\<close>

definition detached_in_loop :: NodeInspectorClient where
  "detached_in_loop = idle_client\<lparr>terminated := True, running_nested_loop := True\<rparr>"

definition started_agent :: Agent where
  "started_agent =
     \<lparr>parent_env = Some 1, client = Some idle_client, agent_platform = Some 2, enabled = True,
      io = Some \<lparr>io_env = Some 1, io_platform = Some 2, io_path = ''p'',
                 io_wait_for_connect = True\<rparr>,
      path = ''p''\<rparr>"

text \<open>A front-end is connected.\<close>

definition connected_agent :: Agent where
  "connected_agent = started_agent\<lparr>client := Some connected_client\<rparr>"

text \<open>A front-end is connected and \<^verbatim>\<open>Agent::Stop\<close> has released the controller.\<close>

definition stopped_agent :: Agent where
  "stopped_agent = connected_agent\<lparr>io := None\<rparr>"

text \<open>After \<^verbatim>\<open>Agent::Start\<close> whose bind failed: the controller stays, the client is gone.\<close>

definition unbound_agent :: Agent where
  "unbound_agent = started_agent\<lparr>client := None\<rparr>"

definition sample_message :: message where
  "sample_message =
     \<lparr>msg_script_id = 42, msg_stack_trace = Some [\<lparr>frame_script_id = 42\<rparr>],
      msg_text = None, msg_resource_name = None, msg_line_number = Some 3,
      msg_start_column = None\<rparr>"

definition sample_call :: "function_ref \<Rightarrow> js_value list \<Rightarrow> js_value option" where
  "sample_call f xs = (case xs of [] \<Rightarrow> None | x # ys \<Rightarrow> Some x)"

text \<open>Inside a pause whose front-end has just disconnected.\<close>

definition detached_agent :: Agent where
  "detached_agent = started_agent\<lparr>client := Some detached_in_loop\<rparr>"


section \<open>Runs and their logs\<close>

lemma then_run_Returned: "then_run (l, Returned x) f = emit l (f x)"
  by (simp add: then_run_def)

lemma emit_Nil: "emit [] m = m"
  by (simp add: emit_def)

lemma emit_pair: "emit l (l', r) = (l @ l', r)"
  by (simp add: emit_def)

lemma snd_emit: "snd (emit l m) = snd m"
  by (simp add: emit_def)

lemma fst_emit: "fst (emit l m) = l @ fst m"
  by (simp add: emit_def)

lemmas run_simps = then_run_Returned emit_Nil emit_pair snd_emit fst_emit

section \<open>The nested pause loop follows its protocol\<close>













































text \<open>
  A run in which the loop loses its client. After \<^verbatim>\<open>Agent::Stop\<close> the controller is
  gone; the task that \<^verbatim>\<open>RequestIoThreadStart\<close> queued runs inside the pump, its bind fails,
  and \<^verbatim>\<open>StartIoThread\<close> releases the client on which the loop is running. The pump
  returns into a destroyed object.
\<close>

lemma pump_task_releases_client:
  "runMessageLoopOnPause stopped_agent
       [Response [] True, Response [OnStartIoTask False] True, Response [] False] =
     ([WaitForFrontendMessageWhilePaused 7, WaitReturned True, PumpMessageLoop 2 1,
       Incoming (OnStartIoTask False), IoStart ''p'' False, SessionDestroyed 7,
       PumpReturned True],
      UseAfterFree)"
  by (simp add: stopped_agent_def connected_agent_def started_agent_def connected_client_def
      idle_client_def new_NodeInspectorClient_def run_simps StartIoTask_Run_def
      Agent_StartIoThread_def client_reset_def channel_reset_def Let_def)

section \<open>The other methods\<close>

text \<open>
  Claim C2, as amended. A call of \<^verbatim>\<open>runMessageLoopOnPause\<close> while the running flag is
  already true and a channel is attached returns at once: nothing is logged, so the loop
  body is not entered, and the agent with its client is returned unchanged, the
  terminated flag included.
\<close>

theorem reentrant_pause_with_channel_returns:
  assumes "client a = Some c" and "running_nested_loop c" and "channel c \<noteq> None"
  shows "runMessageLoopOnPause a rs = ([], Returned a)"
  using assms by simp

theorem reentrant_pause_with_channel_returns_witness:
  "client (started_agent\<lparr>client := Some (connected_client\<lparr>running_nested_loop := True\<rparr>)\<rparr>) =
     Some (connected_client\<lparr>running_nested_loop := True\<rparr>) \<and>
   running_nested_loop (connected_client\<lparr>running_nested_loop := True\<rparr>) \<and>
   channel (connected_client\<lparr>running_nested_loop := True\<rparr>) \<noteq> None \<and>
   runMessageLoopOnPause
       (started_agent\<lparr>client := Some (connected_client\<lparr>running_nested_loop := True\<rparr>)\<rparr>)
       [Response [OnQuit] True] =
     ([], Returned
            (started_agent\<lparr>client := Some (connected_client\<lparr>running_nested_loop := True\<rparr>)\<rparr>))"
proof -
  have a: "client (started_agent\<lparr>client := Some (connected_client\<lparr>running_nested_loop := True\<rparr>)\<rparr>) =
     Some (connected_client\<lparr>running_nested_loop := True\<rparr>)" by simp
  have b: "running_nested_loop (connected_client\<lparr>running_nested_loop := True\<rparr>)" by simp
  have c: "channel (connected_client\<lparr>running_nested_loop := True\<rparr>) \<noteq> None"
    by (simp add: connected_client_def)
  show ?thesis using reentrant_pause_with_channel_returns [OF a b c] a b c by blast
qed

text \<open>
  Claim C2 as stated fails where the flag is true and no channel is attached: the
  assertion stands before the guard, so the call aborts instead of returning.
\<close>

theorem reentrant_pause_without_channel_asserts:
  "client detached_agent = Some detached_in_loop \<and>
   running_nested_loop detached_in_loop \<and>
   runMessageLoopOnPause detached_agent [] = ([], AssertFailed ''channel_ != nullptr'') \<and>
   runMessageLoopOnPause detached_agent [] \<noteq> ([], Returned detached_agent)"
  by (simp add: detached_agent_def detached_in_loop_def idle_client_def
      new_NodeInspectorClient_def)

text \<open>
  That state is reached inside a pause: the front-end disconnects during a wait, and the
  loop is asked to run again before the wait returns.
\<close>

lemma detached_in_loop_reached:
  "run_callback OnDisconnect
       (started_agent\<lparr>client := Some (connected_client\<lparr>running_nested_loop := True\<rparr>)\<rparr>) =
     ([Incoming OnDisconnect, SessionDestroyed 7], Returned detached_agent)"
  by (simp add: detached_agent_def detached_in_loop_def connected_client_def idle_client_def
      new_NodeInspectorClient_def started_agent_def Agent_Disconnect_def disconnectFrontend_def
      quitMessageLoopOnPause_def channel_reset_def run_simps)

lemma reentrant_pause_after_disconnect:
  "runMessageLoopOnPause connected_agent [Response [OnDisconnect, OnPause []] True] =
     ([WaitForFrontendMessageWhilePaused 7, Incoming OnDisconnect, SessionDestroyed 7,
       Incoming (OnPause [])], AssertFailed ''channel_ != nullptr'')"
  by (simp add: connected_agent_def started_agent_def connected_client_def idle_client_def
      new_NodeInspectorClient_def Agent_Disconnect_def disconnectFrontend_def
      quitMessageLoopOnPause_def channel_reset_def run_simps)

text \<open>
  Claim C9. A call of \<^verbatim>\<open>runMessageLoopOnPause\<close> on a client with no channel attached fails
  the assertion \<^verbatim>\<open>channel_ != nullptr\<close> before anything else happens. With a channel
  attached the assertion is passed: the call returns at the guard when the loop is already
  running, and otherwise reaches its first wait on that channel.
\<close>

theorem pause_requires_channel:
  "(\<forall>c. client a = Some c \<and> channel c = None \<longrightarrow>
      runMessageLoopOnPause a rs = ([], AssertFailed ''channel_ != nullptr'')) \<and>
   (\<forall>c ch. client a = Some c \<and> channel c = Some ch \<longrightarrow>
      (if running_nested_loop c then runMessageLoopOnPause a rs = ([], Returned a)
       else \<exists>l. fst (runMessageLoopOnPause a rs) =
                  WaitForFrontendMessageWhilePaused (delegate ch) # l))"
proof (intro conjI allI impI)
  fix c assume "client a = Some c \<and> channel c = None"
  then show "runMessageLoopOnPause a rs = ([], AssertFailed ''channel_ != nullptr'')" by simp
next
  fix c ch assume h: "client a = Some c \<and> channel c = Some ch"
  then have cl: "client a = Some c" and ch: "channel c = Some ch" by simp_all
  let ?a1 = "a\<lparr>client := Some (c\<lparr>terminated := False, running_nested_loop := True\<rparr>)\<rparr>"
  have "\<exists>l. fst (pause_loop ?a1 rs) = WaitForFrontendMessageWhilePaused (delegate ch) # l"
  proof (cases rs)
    case Nil
    then show ?thesis using ch by simp
  next
    case (Cons r rs')
    obtain cbs b where "r = Response cbs b" by (cases r)
    then show ?thesis using ch Cons by (simp add: fst_emit)
  qed
  then obtain l where l: "fst (pause_loop ?a1 rs) = WaitForFrontendMessageWhilePaused (delegate ch) # l"
    by blast
  obtain l' r where lr: "pause_loop ?a1 rs = (l', r)" by (cases "pause_loop ?a1 rs")
  have "\<not> running_nested_loop c \<Longrightarrow>
        fst (runMessageLoopOnPause a rs) = WaitForFrontendMessageWhilePaused (delegate ch) # l"
    using cl ch l lr by (cases r) (simp_all split: option.splits)
  then show "if running_nested_loop c then runMessageLoopOnPause a rs = ([], Returned a)
       else \<exists>l. fst (runMessageLoopOnPause a rs) =
                  WaitForFrontendMessageWhilePaused (delegate ch) # l"
    using cl ch by auto
qed

theorem pause_requires_channel_witness:
  "client started_agent = Some idle_client \<and> channel idle_client = None \<and>
   runMessageLoopOnPause started_agent [Response [] False] =
     ([], AssertFailed ''channel_ != nullptr'') \<and>
   client connected_agent = Some connected_client \<and>
   channel connected_client = Some \<lparr>delegate = 7\<rparr> \<and>
   \<not> running_nested_loop connected_client \<and>
   (\<exists>l. fst (runMessageLoopOnPause connected_agent [Response [] False]) =
          WaitForFrontendMessageWhilePaused 7 # l)"
proof -
  have a: "client started_agent = Some idle_client" by (simp add: started_agent_def)
  have a': "channel idle_client = None"
    by (simp add: idle_client_def new_NodeInspectorClient_def)
  have b: "client connected_agent = Some connected_client" by (simp add: connected_agent_def)
  have b': "channel connected_client = Some \<lparr>delegate = 7\<rparr>"
    by (simp add: connected_client_def)
  have c: "\<not> running_nested_loop connected_client"
    by (simp add: connected_client_def idle_client_def new_NodeInspectorClient_def)
  show ?thesis
    using pause_requires_channel [of started_agent "[Response [] False]"]
      pause_requires_channel [of connected_agent "[Response [] False]"] a a' b b' c
    by auto
qed

lemma binds_StartIoThread: "binds (fst (Agent_StartIoThread w b a)) \<le> 1"
  by (auto simp: run_simps Agent_StartIoThread_def binds_def client_reset_def channel_reset_def
      Let_def split: option.splits)

lemma StartIoThread_sets_io:
  "Agent_StartIoThread w b a = (l, Returned (r, a1)) \<Longrightarrow> io a1 \<noteq> None"
  by (auto simp: run_simps Agent_StartIoThread_def client_reset_def channel_reset_def Let_def
      split: option.splits if_splits)

lemma StartIoThread_bound_true:
  "Agent_StartIoThread w b a = (l, Returned (r, a1)) \<Longrightarrow> IoStart p True \<in> set l \<Longrightarrow> r"
  by (auto simp: run_simps Agent_StartIoThread_def client_reset_def channel_reset_def Let_def
      split: option.splits if_splits)

text \<open>
  Claim C3. \<^verbatim>\<open>StartIoThread\<close> with a controller already present returns true at once:
  the agent is unchanged and nothing is logged, so no controller is built and no bind is
  made. Hence after any first call that returns, a second call returns true without a
  bind: the two calls together bind at most once, and a first call whose bind succeeded
  returned true as well.
\<close>

theorem StartIoThread_idempotent:
  "(io a \<noteq> None \<longrightarrow> Agent_StartIoThread w1 b1 a = ([], Returned (True, a))) \<and>
   (\<forall>l1 r1 a1. Agent_StartIoThread w1 b1 a = (l1, Returned (r1, a1)) \<longrightarrow>
      Agent_StartIoThread w2 b2 a1 = ([], Returned (True, a1)) \<and>
      binds (l1 @ fst (Agent_StartIoThread w2 b2 a1)) \<le> 1 \<and>
      ((\<exists>p. IoStart p True \<in> set l1) \<longrightarrow> r1))"
proof (intro conjI allI impI)
  assume "io a \<noteq> None"
  then show "Agent_StartIoThread w1 b1 a = ([], Returned (True, a))"
    by (simp add: Agent_StartIoThread_def)
next
  fix l1 r1 a1
  assume first: "Agent_StartIoThread w1 b1 a = (l1, Returned (r1, a1))"
  then have "io a1 \<noteq> None" by (rule StartIoThread_sets_io)
  then show second: "Agent_StartIoThread w2 b2 a1 = ([], Returned (True, a1))"
    by (simp add: Agent_StartIoThread_def)
  have "binds l1 \<le> 1" using binds_StartIoThread [of w1 b1 a] first by simp
  then show "binds (l1 @ fst (Agent_StartIoThread w2 b2 a1)) \<le> 1" using second by simp
  assume "\<exists>p. IoStart p True \<in> set l1"
  then show r1 using first StartIoThread_bound_true by blast
qed


theorem StartIoThread_idempotent_witness:
  "io started_agent \<noteq> None \<and>
   Agent_StartIoThread False False started_agent = ([], Returned (True, started_agent)) \<and>
   Agent_StartIoThread True True (started_agent\<lparr>io := None\<rparr>) =
     ([IoStart ''p'' True], Returned (True, started_agent)) \<and>
   Agent_StartIoThread False True started_agent = ([], Returned (True, started_agent)) \<and>
   binds ([IoStart ''p'' True] @ fst (Agent_StartIoThread False True started_agent)) \<le> 1"
proof -
  have a: "io started_agent \<noteq> None" by (simp add: started_agent_def)
  have b: "Agent_StartIoThread True True (started_agent\<lparr>io := None\<rparr>) =
     ([IoStart ''p'' True], Returned (True, started_agent))"
    by (simp add: Agent_StartIoThread_def started_agent_def Let_def)
  show ?thesis
    using StartIoThread_idempotent [of started_agent False False False True] 
      StartIoThread_idempotent [of "started_agent\<lparr>io := None\<rparr>" True True False True] a b
    by blast
qed

text \<open>
  Claim C4. When the bind inside \<^verbatim>\<open>StartIoThread\<close> fails, the call returns false, the
  agent is left without a client, and a \<^verbatim>\<open>Dispatch\<close> that follows fails its assertion
  \<^verbatim>\<open>client_ != nullptr\<close>.
\<close>

theorem failed_bind_releases_client:
  assumes "IoStart p False \<in> set (fst (Agent_StartIoThread w b a))"
  shows "\<exists>l a'. Agent_StartIoThread w b a = (l, Returned (False, a')) \<and> client a' = None \<and>
           Agent_Dispatch msg a' = ([], AssertFailed ''client_ != nullptr'')"
proof -
  from assms have i: "io a = None" and c: "client a \<noteq> None" and b: "\<not> b"
    by (auto simp: Agent_StartIoThread_def Let_def split: if_splits)
  from c obtain cl where cl: "client a = Some cl" by blast
  show ?thesis
    using i cl b
    by (cases "channel cl")
      (simp_all add: run_simps Agent_StartIoThread_def Let_def client_reset_def channel_reset_def
        Agent_Dispatch_def)
qed


theorem failed_bind_releases_client_witness:
  "IoStart ''p'' False \<in> set (fst (Agent_StartIoThread True False (started_agent\<lparr>io := None\<rparr>))) \<and>
   Agent_StartIoThread True False (started_agent\<lparr>io := None\<rparr>) =
     ([IoStart ''p'' False], Returned (False, unbound_agent)) \<and>
   (\<exists>l a'. Agent_StartIoThread True False (started_agent\<lparr>io := None\<rparr>) = (l, Returned (False, a')) \<and>
      client a' = None \<and> Agent_Dispatch ''{}'' a' = ([], AssertFailed ''client_ != nullptr''))"
proof -
  have e: "Agent_StartIoThread True False (started_agent\<lparr>io := None\<rparr>) =
     ([IoStart ''p'' False], Returned (False, unbound_agent))"
    by (simp add: run_simps Agent_StartIoThread_def started_agent_def unbound_agent_def Let_def
        client_reset_def channel_reset_def idle_client_def new_NodeInspectorClient_def)
  then have h: "IoStart ''p'' False \<in> set (fst (Agent_StartIoThread True False (started_agent\<lparr>io := None\<rparr>)))"
    by (simp add: run_simps)
  show ?thesis
    using failed_bind_releases_client [OF h, of "''{}''"] e h by blast
qed

lemma no_overlap_take: "no_overlap b xs \<Longrightarrow> no_overlap b (take n xs)"
proof (induction xs arbitrary: b n)
  case Nil
  then show ?case by simp
next
  case (Cons x xs)
  then show ?case by (cases n; cases x) simp_all
qed

lemma connect_idle:
  "channel c = None \<Longrightarrow>
   connectFrontend d c = ([SessionConnect d], Returned (c\<lparr>channel := Some \<lparr>delegate = d\<rparr>\<rparr>))"
  by (simp add: connectFrontend_def)

lemma disconnect_returns:
  "\<exists>l. disconnectFrontend c = (l, Returned (c\<lparr>terminated := True, channel := None\<rparr>))"
  by (cases "channel c")
    (simp_all add: disconnectFrontend_def quitMessageLoopOnPause_def channel_reset_def)

lemma frontend_calls_channel:
  "no_overlap (channel c \<noteq> None) xs \<Longrightarrow>
   \<exists>l c'. frontend_calls xs c = (l, Returned c') \<and>
          (channel c' \<noteq> None) = (if xs = [] then channel c \<noteq> None else is_connect (last xs))"
proof (induction xs arbitrary: c)
  case Nil
  then show ?case by simp
next
  case (Cons x xs)
  show ?case
  proof (cases x)
    case (Connect d)
    with Cons.prems have idle: "channel c = None" and rest: "no_overlap True xs" by simp_all
    let ?c1 = "c\<lparr>channel := Some \<lparr>delegate = d\<rparr>\<rparr>"
    have "no_overlap (channel ?c1 \<noteq> None) xs" using rest by simp
    from Cons.IH [OF this] obtain l c' where
      "frontend_calls xs ?c1 = (l, Returned c')"
      "(channel c' \<noteq> None) = (if xs = [] then channel ?c1 \<noteq> None else is_connect (last xs))"
      by blast
    then show ?thesis using Connect idle by (simp add: run_simps connect_idle)
  next
    case Disconnect
    with Cons.prems have rest: "no_overlap False xs" by (simp add: run_simps)
    let ?c1 = "c\<lparr>terminated := True, channel := None\<rparr>"
    obtain l0 where l0: "disconnectFrontend c = (l0, Returned ?c1)"
      using disconnect_returns by blast
    have "no_overlap (channel ?c1 \<noteq> None) xs" using rest by simp
    from Cons.IH [OF this] obtain l c' where
      "frontend_calls xs ?c1 = (l, Returned c')"
      "(channel c' \<noteq> None) = (if xs = [] then channel ?c1 \<noteq> None else is_connect (last xs))"
      by blast
    then show ?thesis using Disconnect l0 by (simp add: run_simps)
  qed
qed

text \<open>
  Claim C5. Starting with no channel, after any prefix of a sequence of connects and
  disconnects in which no connect comes while a channel is attached, every call has
  returned and a channel is attached exactly when the last call made was a connect.
  \<^verbatim>\<open>disconnectFrontend\<close> is \<^verbatim>\<open>quitMessageLoopOnPause\<close>, which sets the terminated flag
  and leaves the channel alone, followed by the release of the channel; the pause loop of
  an agent whose client is in the state that results leaves at its next check.
\<close>

theorem channel_attached_between_connect_and_disconnect:
  assumes "channel c = None" and "no_overlap False calls" and "n \<le> length calls"
  shows "(\<exists>l c'. frontend_calls (take n calls) c = (l, Returned c') \<and>
            (channel c' \<noteq> None) = (0 < n \<and> is_connect (calls ! (n - 1)))) \<and>
         terminated (quitMessageLoopOnPause c0) \<and>
         channel (quitMessageLoopOnPause c0) = channel c0 \<and>
         disconnectFrontend c0 = channel_reset (quitMessageLoopOnPause c0) \<and>
         (\<exists>l c'. disconnectFrontend c0 = (l, Returned c') \<and> terminated c' \<and> channel c' = None \<and>
            pause_loop (a0\<lparr>client := Some c'\<rparr>) rs = ([], Returned (a0\<lparr>client := Some c'\<rparr>)))"
proof -
  have "no_overlap (channel c \<noteq> None) (take n calls)"
    using assms(1,2) by (simp add: no_overlap_take)
  from frontend_calls_channel [OF this] obtain l c' where
    r: "frontend_calls (take n calls) c = (l, Returned c')"
    and ch: "(channel c' \<noteq> None) =
        (if take n calls = [] then channel c \<noteq> None else is_connect (last (take n calls)))"
    by blast
  have "(channel c' \<noteq> None) = (0 < n \<and> is_connect (calls ! (n - 1)))"
  proof (cases "n = 0")
    case True
    then show ?thesis using ch assms(1) by simp
  next
    case False
    then have ne: "take n calls \<noteq> []" using assms(3) by auto
    have len: "length (take n calls) = n" using assms(3) by simp
    have "last (take n calls) = take n calls ! (n - 1)"
      using last_conv_nth [OF ne] len by simp
    also have "\<dots> = calls ! (n - 1)" using False by simp
    finally have "last (take n calls) = calls ! (n - 1)" .
    then show ?thesis using ch ne False by simp
  qed
  then have first: "\<exists>l c'. frontend_calls (take n calls) c = (l, Returned c') \<and>
            (channel c' \<noteq> None) = (0 < n \<and> is_connect (calls ! (n - 1)))"
    using r by blast
  obtain l0 where l0: "disconnectFrontend c0 = (l0, Returned (c0\<lparr>terminated := True, channel := None\<rparr>))"
    using disconnect_returns by blast
  have pl: "pause_loop (a0\<lparr>client := Some (c0\<lparr>terminated := True, channel := None\<rparr>)\<rparr>) rs =
      ([], Returned (a0\<lparr>client := Some (c0\<lparr>terminated := True, channel := None\<rparr>)\<rparr>))"
  proof (cases rs)
    case Nil
    then show ?thesis by simp
  next
    case (Cons r rs')
    then show ?thesis by (cases r) simp
  qed
  have last: "\<exists>l c'. disconnectFrontend c0 = (l, Returned c') \<and> terminated c' \<and> channel c' = None \<and>
            pause_loop (a0\<lparr>client := Some c'\<rparr>) rs = ([], Returned (a0\<lparr>client := Some c'\<rparr>))"
    using l0 pl by simp
  show ?thesis
    using first last by (simp add: quitMessageLoopOnPause_def disconnectFrontend_def)
qed


theorem channel_attached_between_connect_and_disconnect_witness:
  "channel idle_client = None \<and> no_overlap False [Connect 7, Disconnect, Connect 9] \<and>
   (3::nat) \<le> length [Connect 7, Disconnect, Connect 9] \<and>
   (\<exists>l c'. frontend_calls (take 3 [Connect 7, Disconnect, Connect 9]) idle_client = (l, Returned c') \<and>
            (channel c' \<noteq> None) = (0 < (3::nat) \<and> is_connect ([Connect 7, Disconnect, Connect 9] ! (3 - 1)))) \<and>
   (\<exists>l c'. disconnectFrontend connected_client = (l, Returned c') \<and> terminated c' \<and>
            channel c' = None \<and>
            pause_loop (started_agent\<lparr>client := Some c'\<rparr>) [Response [] True] =
              ([], Returned (started_agent\<lparr>client := Some c'\<rparr>)))"
proof -
  have a: "channel idle_client = None"
    by (simp add: idle_client_def new_NodeInspectorClient_def)
  have b: "no_overlap False [Connect 7, Disconnect, Connect 9]" by simp
  have c: "(3::nat) \<le> length [Connect 7, Disconnect, Connect 9]" by simp
  show ?thesis
    using channel_attached_between_connect_and_disconnect
      [OF a b c, of connected_client started_agent "[Response [] True]"] a b c
    by blast
qed

lemma overlapping_connect_asserts:
  "channel c \<noteq> None \<Longrightarrow> connectFrontend d c = ([], AssertFailed ''channel_ == nullptr'')"
  by (simp add: connectFrontend_def)

text \<open>
  Claim C7. \<^verbatim>\<open>NodeInspectorClient::FatalException\<close> makes one \<^verbatim>\<open>exceptionThrown\<close> call.
  Its script id is 0 when the message has a stack trace with at least one frame whose top
  frame has the script id of the message, and the script id of the message otherwise.
\<close>

theorem FatalException_script_id:
  "\<exists>report. NodeInspectorClient_FatalException error m c = ([ExceptionThrown report], Returned c) \<and>
      exn_script_id report =
        (if \<exists>f fs. msg_stack_trace m = Some (f # fs) \<and> frame_script_id f = msg_script_id m
         then 0 else msg_script_id m)"
proof (cases "msg_stack_trace m")
  case None
  then show ?thesis
    by (simp add: NodeInspectorClient_FatalException_def reported_script_id_def)
next
  case (Some frames)
  then show ?thesis
    by (cases frames)
      (auto simp: NodeInspectorClient_FatalException_def reported_script_id_def Let_def)
qed


theorem FatalException_script_id_witness:
  "(\<exists>report. NodeInspectorClient_FatalException None sample_message idle_client =
       ([ExceptionThrown report], Returned idle_client) \<and> exn_script_id report = 0) \<and>
   (\<exists>report. NodeInspectorClient_FatalException None
         (sample_message\<lparr>msg_stack_trace := Some [\<lparr>frame_script_id = 5\<rparr>, \<lparr>frame_script_id = 42\<rparr>]\<rparr>)
         idle_client =
       ([ExceptionThrown report], Returned idle_client) \<and> exn_script_id report = 42) \<and>
   (\<exists>report. NodeInspectorClient_FatalException None (sample_message\<lparr>msg_stack_trace := None\<rparr>)
         idle_client =
       ([ExceptionThrown report], Returned idle_client) \<and> exn_script_id report = 42)"
  using FatalException_script_id [of None sample_message idle_client]
    FatalException_script_id [of None
      "sample_message\<lparr>msg_stack_trace := Some [\<lparr>frame_script_id = 5\<rparr>, \<lparr>frame_script_id = 42\<rparr>]\<rparr>"
      idle_client]
    FatalException_script_id [of None "sample_message\<lparr>msg_stack_trace := None\<rparr>" idle_client]
  by (simp add: sample_message_def)

lemma Start_success:
  assumes "Agent_Start e p path_arg rc b a0 = (l0, Returned (True, a))"
  shows "parent_env a = Some e \<and> client a = Some (new_NodeInspectorClient e p) \<and> io a \<noteq> None"
proof -
  obtain l1 a3 where cr: "client_reset (a0\<lparr>path := (case path_arg of None \<Rightarrow> [] | Some s \<Rightarrow> s),
      parent_env := Some e\<rparr>) = (l1, Returned a3)"
    and a3: "parent_env a3 = Some e"
    by (cases "client a0"; cases "channel (the (client a0))")
      (auto simp: run_simps client_reset_def channel_reset_def)
  let ?a6 = "a3\<lparr>client := Some (new_NodeInspectorClient e p), agent_platform := Some p\<rparr>"
  have out: "snd (Agent_Start e p path_arg rc b a0) = Returned (True, a)"
    using assms by (simp add: run_simps)
  have rc: "rc = 0" using out cr
    by (auto simp: run_simps Agent_Start_def Let_def contextCreated_def split: if_splits)
  have "snd (Agent_StartIoThread True b ?a6) = Returned (True, a)"
    using out cr rc by (simp add: run_simps Agent_Start_def Let_def contextCreated_def)
  then obtain l2 where st: "Agent_StartIoThread True b ?a6 = (l2, Returned (True, a))"
    by (cases "Agent_StartIoThread True b ?a6") (simp add: run_simps)
  show ?thesis
  proof (cases "io ?a6")
    case None
    then show ?thesis using st a3
      by (auto simp: run_simps Agent_StartIoThread_def Let_def client_reset_def channel_reset_def
          new_NodeInspectorClient_def split: if_splits)
  next
    case (Some i)
    then show ?thesis using st a3 by (auto simp: run_simps Agent_StartIoThread_def)
  qed
qed

text \<open>
  Claim C6. \<^verbatim>\<open>Agent::FatalException\<close> on an agent that is not started (a new agent is
  not) returns the agent unchanged and logs nothing. With a client, it is the client's
  report followed by one run of \<^verbatim>\<open>Agent::WaitForDisconnect\<close>. On the agent that a
  successful \<^verbatim>\<open>Start\<close> returns, that is: the exception report, the context teardown, and
  the blocking wait of the IO thread controller, exactly once.
\<close>

theorem Agent_FatalException_before_and_after_start:
  "\<not> IsStarted new_Agent \<and>
   (\<not> IsStarted a \<longrightarrow> Agent_FatalException error m a = ([], Returned a)) \<and>
   (\<forall>c. client a = Some c \<longrightarrow>
      Agent_FatalException error m a =
        emit (fst (NodeInspectorClient_FatalException error m c)) (Agent_WaitForDisconnect a)) \<and>
   (\<forall>e p path_arg rc b a0 l0.
      Agent_Start e p path_arg rc b a0 = (l0, Returned (True, a)) \<longrightarrow>
        Agent_FatalException error m a =
          (fst (NodeInspectorClient_FatalException error m (new_NodeInspectorClient e p)) @
             [InspectorContextDestroyed e, IoWaitForDisconnect],
           Returned a) \<and>
        disconnect_waits (fst (Agent_FatalException error m a)) = 1)"
proof (intro conjI allI impI)
  show "\<not> IsStarted new_Agent" by (simp add: IsStarted_def new_Agent_def)
next
  assume "\<not> IsStarted a"
  then show "Agent_FatalException error m a = ([], Returned a)"
    by (simp add: Agent_FatalException_def)
next
  fix c
  assume c: "client a = Some c"
  then have same: "a\<lparr>client := Some c\<rparr> = a" by simp
  show "Agent_FatalException error m a =
        emit (fst (NodeInspectorClient_FatalException error m c)) (Agent_WaitForDisconnect a)"
    using c
    by (simp add: run_simps Agent_FatalException_def IsStarted_def NodeInspectorClient_FatalException_def
        same)
next
  fix e p path_arg rc b a0 l0
  assume "Agent_Start e p path_arg rc b a0 = (l0, Returned (True, a))"
  from Start_success [OF this]
  have s: "parent_env a = Some e" "client a = Some (new_NodeInspectorClient e p)" "io a \<noteq> None"
    by simp_all
  have same: "a\<lparr>client := Some (new_NodeInspectorClient e p)\<rparr> = a" using s(2) by simp
  show r: "Agent_FatalException error m a =
          (fst (NodeInspectorClient_FatalException error m (new_NodeInspectorClient e p)) @
             [InspectorContextDestroyed e, IoWaitForDisconnect],
           Returned a)"
    using s same
    by (simp add: run_simps Agent_FatalException_def IsStarted_def NodeInspectorClient_FatalException_def
        Agent_WaitForDisconnect_def contextDestroyed_def)
  show "disconnect_waits (fst (Agent_FatalException error m a)) = 1"
    unfolding r by (simp add: run_simps disconnect_waits_def NodeInspectorClient_FatalException_def)
qed


theorem Agent_FatalException_before_and_after_start_witness:
  "\<not> IsStarted unbound_agent \<and>
   Agent_FatalException None sample_message unbound_agent = ([], Returned unbound_agent) \<and>
   Agent_Start 1 2 (Some ''p'') 0 True new_Agent =
     ([IsolateSetData 1, GlobalSet 1 ''callAndPauseOnStart'',
       InspectorContextCreated 1 1 ''CB debugger context'', UvAsyncInit 0, IoStart ''p'' True],
      Returned (True, started_agent)) \<and>
   disconnect_waits (fst (Agent_FatalException None sample_message started_agent)) = 1"
proof -
  have a: "\<not> IsStarted unbound_agent" by (simp add: IsStarted_def unbound_agent_def)
  have b: "Agent_Start 1 2 (Some ''p'') 0 True new_Agent =
     ([IsolateSetData 1, GlobalSet 1 ''callAndPauseOnStart'',
       InspectorContextCreated 1 1 ''CB debugger context'', UvAsyncInit 0, IoStart ''p'' True],
      Returned (True, started_agent))"
    by (simp add: run_simps Agent_Start_def Agent_StartIoThread_def new_Agent_def started_agent_def
        client_reset_def contextCreated_def CONTEXT_GROUP_ID_def idle_client_def Let_def)
  show ?thesis
    using Agent_FatalException_before_and_after_start [of unbound_agent None sample_message]
      Agent_FatalException_before_and_after_start [of started_agent None sample_message] a b
    by blast
qed

lemma collect_call_args_drop: "collect_call_args args i acc = acc @ drop i args"
proof (induction args i acc rule: collect_call_args.induct)
  case (1 args i call_args)
  show ?case
  proof (cases "i < length args")
    case True
    have "collect_call_args args i call_args = collect_call_args args (i + 1) (call_args @ [args ! i])"
      using True by (subst collect_call_args.simps) simp
    also have "\<dots> = (call_args @ [args ! i]) @ drop (i + 1) args"
      using True by (rule "1.IH")
    also have "\<dots> = call_args @ drop i args"
      using True by (simp add: Cons_nth_drop_Suc)
    finally show ?thesis .
  next
    case False
    then show ?thesis by (subst collect_call_args.simps) simp
  qed
qed

lemma pause_request_returns:
  "client a \<noteq> None \<Longrightarrow>
   Agent_PauseOnNextJavascriptStatement reason a =
     (fst (Agent_PauseOnNextJavascriptStatement reason a), Returned a)"
  by (auto simp: Agent_PauseOnNextJavascriptStatement_def split: option.splits)

text \<open>
  With a Session Client present, \<^verbatim>\<open>CallAndPauseOnStart\<close> on a function followed by further
  arguments first makes the pause request with reason \<^verbatim>\<open>Break on start\<close>, then calls the
  function with exactly the further arguments, in order, and returns with the return
  value slot holding the function's result, or unset when the result is empty.
\<close>

theorem CallAndPauseOnStart_with_client:
  assumes "client a = Some c"
  shows "CallAndPauseOnStart call (JsFunction f # rest) a =
           (fst (Agent_PauseOnNextJavascriptStatement ''Break on start'' a) @ [FunctionCall f rest],
            Returned (call f rest, a)) \<and>
         fst (Agent_PauseOnNextJavascriptStatement ''Break on start'' a) =
           (case channel c of
              None \<Rightarrow> []
            | Some ch \<Rightarrow> [SessionSchedulePause (delegate ch) ''Break on start'' ''Break on start''])"
proof -
  have rv: "(case x of None \<Rightarrow> None | Some v \<Rightarrow> Some v) = x" for x :: "js_value option"
    by (cases x) simp_all
  have p: "Agent_PauseOnNextJavascriptStatement ''Break on start'' a =
     (fst (Agent_PauseOnNextJavascriptStatement ''Break on start'' a), Returned a)"
    using assms by (intro pause_request_returns) simp
  have "CallAndPauseOnStart call (JsFunction f # rest) a =
      then_run (Agent_PauseOnNextJavascriptStatement ''Break on start'' a)
        (\<lambda>a'. ([FunctionCall f rest], Returned (call f rest, a')))"
    by (simp add: run_simps CallAndPauseOnStart_def Let_def collect_call_args_drop rv)
  also have "\<dots> = (fst (Agent_PauseOnNextJavascriptStatement ''Break on start'' a) @ [FunctionCall f rest],
            Returned (call f rest, a))"
    by (subst p) (simp add: run_simps)
  finally have first: "CallAndPauseOnStart call (JsFunction f # rest) a =
           (fst (Agent_PauseOnNextJavascriptStatement ''Break on start'' a) @ [FunctionCall f rest],
            Returned (call f rest, a))" .
  have second: "fst (Agent_PauseOnNextJavascriptStatement ''Break on start'' a) =
           (case channel c of
              None \<Rightarrow> []
            | Some ch \<Rightarrow> [SessionSchedulePause (delegate ch) ''Break on start'' ''Break on start''])"
    using assms
    by (simp add: Agent_PauseOnNextJavascriptStatement_def schedulePauseOnNextStatement_def
        split: option.splits)
  show ?thesis using first second by blast
qed

theorem CallAndPauseOnStart_with_client_witness:
  "client (started_agent\<lparr>client := Some connected_client\<rparr>) = Some connected_client \<and>
   CallAndPauseOnStart sample_call [JsFunction 5, JsNumber 10, JsNull]
       (started_agent\<lparr>client := Some connected_client\<rparr>) =
     ([SessionSchedulePause 7 ''Break on start'' ''Break on start'',
       FunctionCall 5 [JsNumber 10, JsNull]],
      Returned (Some (JsNumber 10), started_agent\<lparr>client := Some connected_client\<rparr>)) \<and>
   CallAndPauseOnStart sample_call [JsFunction 5]
       (started_agent\<lparr>client := Some connected_client\<rparr>) =
     ([SessionSchedulePause 7 ''Break on start'' ''Break on start'', FunctionCall 5 []],
      Returned (None, started_agent\<lparr>client := Some connected_client\<rparr>))"
proof -
  have a: "client (started_agent\<lparr>client := Some connected_client\<rparr>) = Some connected_client"
    by simp
  have ch: "channel connected_client = Some \<lparr>delegate = 7\<rparr>"
    by (simp add: connected_client_def)
  show ?thesis
    using CallAndPauseOnStart_with_client [OF a, of sample_call 5 "[JsNumber 10, JsNull]"]
      CallAndPauseOnStart_with_client [OF a, of sample_call 5 "[]"] a ch
    by (simp add: sample_call_def)
qed

text \<open>
  Claim C8. The claim holds of every invocation with a function as first argument; the
  code breaks it on an agent whose client was released. \<^verbatim>\<open>Agent::Start\<close> installs the
  callback before it starts the IO thread; when the bind fails the client is released and
  the callback stays installed. A later call of it dereferences the null client in
  \<^verbatim>\<open>PauseOnNextJavascriptStatement\<close>: no pause is requested, the function is never
  called, and the call does not return.
\<close>

theorem CallAndPauseOnStart_without_client:
  "Agent_Start 1 2 (Some ''p'') 0 False new_Agent =
     ([IsolateSetData 1, GlobalSet 1 ''callAndPauseOnStart'',
       InspectorContextCreated 1 1 ''CB debugger context'', UvAsyncInit 0, IoStart ''p'' False],
      Returned (False, unbound_agent)) \<and>
   CallAndPauseOnStart sample_call [JsFunction 5, JsNumber 10] unbound_agent = ([], NullDeref)"
  by (simp add: run_simps Agent_Start_def Agent_StartIoThread_def new_Agent_def started_agent_def
      unbound_agent_def client_reset_def channel_reset_def contextCreated_def CONTEXT_GROUP_ID_def
      idle_client_def new_NodeInspectorClient_def Let_def CallAndPauseOnStart_def
      Agent_PauseOnNextJavascriptStatement_def then_run_def collect_call_args_drop)

text \<open>
  \<^verbatim>\<open>Agent::PauseOnNextJavascriptStatement\<close> with a client but no channel returns the agent
  unchanged and logs nothing: no pause is scheduled and no assertion fails.
  \<^verbatim>\<open>Dispatch\<close> and \<^verbatim>\<open>Disconnect\<close> without a client fail their assertion
  \<^verbatim>\<open>client_ != nullptr\<close>.
\<close>

theorem pause_request_without_channel_is_noop:
  "(\<forall>c. client a = Some c \<and> channel c = None \<longrightarrow>
      Agent_PauseOnNextJavascriptStatement reason a = ([], Returned a)) \<and>
   (client a = None \<longrightarrow>
      Agent_Dispatch msg a = ([], AssertFailed ''client_ != nullptr'') \<and>
      Agent_Disconnect a = ([], AssertFailed ''client_ != nullptr''))"
  by (simp add: Agent_PauseOnNextJavascriptStatement_def Agent_Dispatch_def Agent_Disconnect_def)

theorem pause_request_without_channel_is_noop_witness:
  "client started_agent = Some idle_client \<and> channel idle_client = None \<and>
   Agent_PauseOnNextJavascriptStatement ''Break on start'' started_agent = ([], Returned started_agent) \<and>
   client unbound_agent = None \<and>
   Agent_Dispatch ''{}'' unbound_agent = ([], AssertFailed ''client_ != nullptr'') \<and>
   Agent_Disconnect unbound_agent = ([], AssertFailed ''client_ != nullptr'')"
proof -
  have a: "client started_agent = Some idle_client" by (simp add: started_agent_def)
  have b: "channel idle_client = None" by (simp add: idle_client_def new_NodeInspectorClient_def)
  have c: "client unbound_agent = None" by (simp add: unbound_agent_def)
  show ?thesis
    using pause_request_without_channel_is_noop [of started_agent "''Break on start''" "''{}''"]
      pause_request_without_channel_is_noop [of unbound_agent "''Break on start''" "''{}''"] a b c
    by blast
qed

text \<open>
  Claim C10. The claim counts \<^verbatim>\<open>Connect\<close> with \<^verbatim>\<open>Dispatch\<close> and \<^verbatim>\<open>Disconnect\<close> as
  treating a missing client as a fatal contract violation. On an agent without a client
  the other two fail the assertion \<^verbatim>\<open>client_ != nullptr\<close>; \<^verbatim>\<open>Connect\<close> has no such
  assertion and dereferences the null pointer.
\<close>

theorem Connect_without_client_is_not_asserted:
  "client unbound_agent = None \<and>
   Agent_Dispatch ''{}'' unbound_agent = ([], AssertFailed ''client_ != nullptr'') \<and>
   Agent_Disconnect unbound_agent = ([], AssertFailed ''client_ != nullptr'') \<and>
   Agent_Connect 7 unbound_agent = ([], NullDeref)"
  by (simp add: Agent_Connect_def Agent_Dispatch_def Agent_Disconnect_def unbound_agent_def
      Let_def)

end
